theory Spec2Isabelle
  imports Complex_Main "HOL-Library.Sublist"
begin

section \<open>Fixed-layout document generator: a shallow embedding of app/main.py\<close>

text \<open>
  The service is a set of HTTP handlers around a file system, a JSON parser, a
  templating library, a clock and an external converter process. The handlers are
  embedded as functions that take the file system and return the new one together
  with either the raised exception (\<open>Inl\<close>) or the response (\<open>Inr\<close>). The external
  collaborators are parameters, collected in the record \<open>env\<close>.

  A Python \<open>str\<close> is modelled by its UTF-8 bytes (\<open>string\<close>); the Chinese message
  literals of the source are written out byte by byte. Substring and suffix tests on
  UTF-8 bytes agree with the tests on code points. A leading underscore of a Python
  name is dropped (\<open>_render_docx\<close> is \<open>render_docx\<close>).
\<close>

subsection \<open>Python values\<close>

text \<open>A Python float: a finite double is a rational number; \<open>json.loads\<close> also yields
  the infinities and NaN.\<close>

datatype pyfloat = Finite rat | PosInf | NegInf | NaN

text \<open>What \<open>json.loads\<close> returns. A \<open>dict\<close> is an association list read with \<open>map_of\<close>.\<close>

datatype json =
    JNull
  | JBool bool
  | JInt int
  | JFloat pyfloat
  | JStr string
  | JList "json list"
  | JDict "(string \<times> json) list"

type_synonym pydict = "(string \<times> json) list"

text \<open>Python's \<open>bool(x)\<close>; \<open>not x\<close> is its negation.\<close>

fun truthy :: "json \<Rightarrow> bool" where
  "truthy JNull = False"
| "truthy (JBool b) = b"
| "truthy (JInt n) = (n \<noteq> 0)"
| "truthy (JFloat (Finite r)) = (r \<noteq> 0)"
| "truthy (JFloat _) = True"
| "truthy (JStr s) = (s \<noteq> [])"
| "truthy (JList xs) = (xs \<noteq> [])"
| "truthy (JDict kvs) = (kvs \<noteq> [])"

text \<open>\<open>x in {"on", True, "true"}\<close>: membership in a set literal hashes \<open>x\<close> and compares
  with \<open>==\<close>. A list or a dict is unhashable (\<open>TypeError\<close>, the result \<open>None\<close> here);
  \<open>1\<close> and \<open>1.0\<close> are equal to \<open>True\<close>.\<close>

fun in_on_true :: "json \<Rightarrow> bool option" where
  "in_on_true JNull = Some False"
| "in_on_true (JBool b) = Some b"
| "in_on_true (JInt n) = Some (n = 1)"
| "in_on_true (JFloat (Finite r)) = Some (r = 1)"
| "in_on_true (JFloat _) = Some False"
| "in_on_true (JStr s) = Some (s = ''on'' \<or> s = ''true'')"
| "in_on_true (JList xs) = None"
| "in_on_true (JDict kvs) = None"

text \<open>\<open>needle in haystack\<close> on strings.\<close>

fun contains :: "string \<Rightarrow> string \<Rightarrow> bool" where
  "contains [] needle = (needle = [])"
| "contains (c # cs) needle = (prefix needle (c # cs) \<or> contains cs needle)"

subsection \<open>Exceptions\<close>

text \<open>\<open>HTTPException status detail\<close> is what the handlers raise on purpose; the other
  constructors are exceptions of the standard library that the handlers do not catch.\<close>

datatype exc =
    HTTPException nat string
  | JSONDecodeError string
  | TypeError
  | FileNotFoundError

subsection \<open>Message literals\<close>

definition msg_docx_only :: string where
  \<comment> \<open>U+50C5 U+63A5 U+53D7 " .docx " U+6BCD U+7248 U+6A94 U+6848\<close>
  "msg_docx_only =
     [CHR 0xE5, CHR 0x83, CHR 0x85, CHR 0xE6, CHR 0x8E, CHR 0xA5, CHR 0xE5, CHR 0x8F, CHR 0x97]
     @ '' .docx '' @
     [CHR 0xE6, CHR 0xAF, CHR 0x8D, CHR 0xE7, CHR 0x89, CHR 0x88, CHR 0xE6, CHR 0xAA, CHR 0x94,
      CHR 0xE6, CHR 0xA1, CHR 0x88]"

definition msg_template_updated :: string where
  \<comment> \<open>U+6BCD U+7248 U+5DF2 U+66F4 U+65B0\<close>
  "msg_template_updated =
     [CHR 0xE6, CHR 0xAF, CHR 0x8D, CHR 0xE7, CHR 0x89, CHR 0x88, CHR 0xE5, CHR 0xB7, CHR 0xB2,
      CHR 0xE6, CHR 0x9B, CHR 0xB4, CHR 0xE6, CHR 0x96, CHR 0xB0]"

definition msg_json_request_format :: string where
  \<comment> \<open>"JSON " U+8ACB U+6C42 U+683C U+5F0F U+932F U+8AA4\<close>
  "msg_json_request_format =
     ''JSON '' @
     [CHR 0xE8, CHR 0xAB, CHR 0x8B, CHR 0xE6, CHR 0xB1, CHR 0x82, CHR 0xE6, CHR 0xA0, CHR 0xBC,
      CHR 0xE5, CHR 0xBC, CHR 0x8F, CHR 0xE9, CHR 0x8C, CHR 0xAF, CHR 0xE8, CHR 0xAA, CHR 0xA4]"

definition msg_data_must_be_object :: string where
  \<comment> \<open>"data " U+6B04 U+4F4D U+5FC5 U+9808 U+662F " JSON " U+7269 U+4EF6\<close>
  "msg_data_must_be_object =
     ''data '' @
     [CHR 0xE6, CHR 0xAC, CHR 0x84, CHR 0xE4, CHR 0xBD, CHR 0x8D, CHR 0xE5, CHR 0xBF, CHR 0x85,
      CHR 0xE9, CHR 0xA0, CHR 0x88, CHR 0xE6, CHR 0x98, CHR 0xAF]
     @ '' JSON '' @
     [CHR 0xE7, CHR 0x89, CHR 0xA9, CHR 0xE4, CHR 0xBB, CHR 0xB6]"

definition msg_form_parse_failed :: string where
  \<comment> \<open>U+8868 U+55AE U+8CC7 U+6599 U+89E3 U+6790 U+5931 U+6557\<close>
  "msg_form_parse_failed =
     [CHR 0xE8, CHR 0xA1, CHR 0xA8, CHR 0xE5, CHR 0x96, CHR 0xAE, CHR 0xE8, CHR 0xB3, CHR 0x87,
      CHR 0xE6, CHR 0x96, CHR 0x99, CHR 0xE8, CHR 0xA7, CHR 0xA3, CHR 0xE6, CHR 0x9E, CHR 0x90,
      CHR 0xE5, CHR 0xA4, CHR 0xB1, CHR 0xE6, CHR 0x95, CHR 0x97]"

definition msg_missing_json_data :: string where
  \<comment> \<open>U+7F3A U+5C11 " json_data"\<close>
  "msg_missing_json_data =
     [CHR 0xE7, CHR 0xBC, CHR 0xBA, CHR 0xE5, CHR 0xB0, CHR 0x91] @ '' json_data''"

definition msg_json_parse_error :: string where
  \<comment> \<open>"JSON " U+89E3 U+6790 U+932F U+8AA4 ": "\<close>
  "msg_json_parse_error =
     ''JSON '' @
     [CHR 0xE8, CHR 0xA7, CHR 0xA3, CHR 0xE6, CHR 0x9E, CHR 0x90, CHR 0xE9, CHR 0x8C, CHR 0xAF,
      CHR 0xE8, CHR 0xAA, CHR 0xA4]
     @ '': ''"

definition msg_root_must_be_object :: string where
  \<comment> \<open>"JSON " U+6839 U+5C64 U+7D1A U+5FC5 U+9808 U+662F U+7269 U+4EF6\<close>
  "msg_root_must_be_object =
     ''JSON '' @
     [CHR 0xE6, CHR 0xA0, CHR 0xB9, CHR 0xE5, CHR 0xB1, CHR 0xA4, CHR 0xE7, CHR 0xB4, CHR 0x9A,
      CHR 0xE5, CHR 0xBF, CHR 0x85, CHR 0xE9, CHR 0xA0, CHR 0x88, CHR 0xE6, CHR 0x98, CHR 0xAF,
      CHR 0xE7, CHR 0x89, CHR 0xA9, CHR 0xE4, CHR 0xBB, CHR 0xB6]"

definition msg_template_missing :: string where
  \<comment> \<open>U+5C1A U+672A U+4E0A U+50B3 U+6BCD U+7248 " template.docx"\<close>
  "msg_template_missing =
     [CHR 0xE5, CHR 0xB0, CHR 0x9A, CHR 0xE6, CHR 0x9C, CHR 0xAA, CHR 0xE4, CHR 0xB8, CHR 0x8A,
      CHR 0xE5, CHR 0x82, CHR 0xB3, CHR 0xE6, CHR 0xAF, CHR 0x8D, CHR 0xE7, CHR 0x89, CHR 0x88]
     @ '' template.docx''"

definition msg_template_load_failed :: string where
  \<comment> \<open>U+7121 U+6CD5 U+8F09 U+5165 U+6BCD U+7248 ": "\<close>
  "msg_template_load_failed =
     [CHR 0xE7, CHR 0x84, CHR 0xA1, CHR 0xE6, CHR 0xB3, CHR 0x95, CHR 0xE8, CHR 0xBC, CHR 0x89,
      CHR 0xE5, CHR 0x85, CHR 0xA5, CHR 0xE6, CHR 0xAF, CHR 0x8D, CHR 0xE7, CHR 0x89, CHR 0x88]
     @ '': ''"

definition msg_render_failed :: string where
  \<comment> \<open>U+7522 U+751F U+5167 U+5BB9 U+5931 U+6557 ": "\<close>
  "msg_render_failed =
     [CHR 0xE7, CHR 0x94, CHR 0xA2, CHR 0xE7, CHR 0x94, CHR 0x9F, CHR 0xE5, CHR 0x85, CHR 0xA7,
      CHR 0xE5, CHR 0xAE, CHR 0xB9, CHR 0xE5, CHR 0xA4, CHR 0xB1, CHR 0xE6, CHR 0x95, CHR 0x97]
     @ '': ''"

definition msg_pdf_convert_failed :: string where
  \<comment> \<open>"PDF " U+8F49 U+63DB U+5931 U+6557 ": "\<close>
  "msg_pdf_convert_failed =
     ''PDF '' @
     [CHR 0xE8, CHR 0xBD, CHR 0x89, CHR 0xE6, CHR 0x8F, CHR 0x9B, CHR 0xE5, CHR 0xA4, CHR 0xB1,
      CHR 0xE6, CHR 0x95, CHR 0x97]
     @ '': ''"

definition msg_pdf_not_generated :: string where
  \<comment> \<open>"PDF " U+6A94 U+6848 U+672A U+751F U+6210\<close>
  "msg_pdf_not_generated =
     ''PDF '' @
     [CHR 0xE6, CHR 0xAA, CHR 0x94, CHR 0xE6, CHR 0xA1, CHR 0x88, CHR 0xE6, CHR 0x9C, CHR 0xAA,
      CHR 0xE7, CHR 0x94, CHR 0x9F, CHR 0xE6, CHR 0x88, CHR 0x90]"

subsection \<open>Request data\<close>

text \<open>An uploaded file: its client-side name and its bytes.\<close>

record upload_file =
  filename :: string
  file_bytes :: string

text \<open>A form field is a string or an uploaded file.\<close>

datatype form_value = FStr string | FUpload upload_file

text \<open>The argument \<open>request_data\<close> of the context loader: the value of
  \<open>request.json()\<close>, or the \<open>FormData\<close> of \<open>request.form()\<close>, a multi-dict whose
  \<open>get\<close> returns the last value stored under a key.\<close>

datatype request_data = Payload json | FormData "(string \<times> form_value) list"

definition form_get :: "(string \<times> form_value) list \<Rightarrow> string \<Rightarrow> form_value option" where
  "form_get items k = map_of (rev items) k"

subsection \<open>Context loading\<close>

text \<open>The form branch when \<open>request_data\<close> is a plain \<open>dict\<close>: the only JSON value with
  an attribute \<open>get\<close>. \<open>json.loads\<close> of a value that is not a string raises
  \<open>TypeError\<close>.\<close>

definition load_form_dict ::
  "(string \<Rightarrow> string + json) \<Rightarrow> pydict \<Rightarrow> exc + (pydict \<times> bool)" where
  "load_form_dict loads d =
     (case map_of d ''json_data'' of
        None \<Rightarrow> Inl (HTTPException 400 msg_missing_json_data)
      | Some json_text \<Rightarrow>
          if \<not> truthy json_text then Inl (HTTPException 400 msg_missing_json_data)
          else (case json_text of
              JStr s \<Rightarrow>
                (case loads s of
                   Inl e \<Rightarrow> Inl (HTTPException 400 (msg_json_parse_error @ e))
                 | Inr context \<Rightarrow>
                     (case in_on_true (case map_of d ''generate_pdf'' of
                                         None \<Rightarrow> JNull | Some v \<Rightarrow> v) of
                        None \<Rightarrow> Inl TypeError
                      | Some generate_pdf \<Rightarrow>
                          (case context of
                             JDict c \<Rightarrow> Inr (c, generate_pdf)
                           | _ \<Rightarrow> Inl (HTTPException 400 msg_root_must_be_object))))
            | _ \<Rightarrow> Inl TypeError))"

text \<open>The form branch on a \<open>FormData\<close>. An uploaded file is truthy and is not a string
  (\<open>json.loads\<close> raises \<open>TypeError\<close>); as the value of \<open>generate_pdf\<close> it is hashable
  and equal to none of \<open>"on"\<close>, \<open>True\<close>, \<open>"true"\<close>.\<close>

definition load_form_data ::
  "(string \<Rightarrow> string + json) \<Rightarrow> (string \<times> form_value) list \<Rightarrow> exc + (pydict \<times> bool)" where
  "load_form_data loads items =
     (case form_get items ''json_data'' of
        None \<Rightarrow> Inl (HTTPException 400 msg_missing_json_data)
      | Some (FUpload u) \<Rightarrow> Inl TypeError
      | Some (FStr json_text) \<Rightarrow>
          if json_text = [] then Inl (HTTPException 400 msg_missing_json_data)
          else (case loads json_text of
              Inl e \<Rightarrow> Inl (HTTPException 400 (msg_json_parse_error @ e))
            | Inr context \<Rightarrow>
                (let generate_pdf =
                   (case form_get items ''generate_pdf'' of
                      Some (FStr s) \<Rightarrow> s = ''on'' \<or> s = ''true''
                    | _ \<Rightarrow> False)
                 in case context of
                      JDict c \<Rightarrow> Inr (c, generate_pdf)
                    | _ \<Rightarrow> Inl (HTTPException 400 msg_root_must_be_object))))"

text \<open>\<open>_load_context_from_request(content_type, request_data)\<close>. The first argument
  is \<open>json.loads\<close>: \<open>Inl e\<close> is a \<open>JSONDecodeError\<close> with message \<open>e\<close>.\<close>

definition load_context_from_request ::
  "(string \<Rightarrow> string + json) \<Rightarrow> string \<Rightarrow> request_data \<Rightarrow> exc + (pydict \<times> bool)" where
  "load_context_from_request loads content_type request_data =
     (if contains content_type ''application/json'' then
        (case request_data of
           Payload (JDict d) \<Rightarrow>
             (let context = map_of d ''data'';
                  generate_pdf = (case map_of d ''generate_pdf'' of
                                    None \<Rightarrow> False | Some v \<Rightarrow> truthy v)
              in case context of
                   Some (JDict c) \<Rightarrow> Inr (c, generate_pdf)
                 | _ \<Rightarrow> Inl (HTTPException 400 msg_data_must_be_object))
         | _ \<Rightarrow> Inl (HTTPException 400 msg_json_request_format))
      else
        (case request_data of
           Payload (JDict d) \<Rightarrow> load_form_dict loads d
         | Payload _ \<Rightarrow> Inl (HTTPException 400 msg_form_parse_failed)
         | FormData items \<Rightarrow> load_form_data loads items))"

subsection \<open>Paths and the file system\<close>

text \<open>A path is the list of its components below \<open>BASE_DIR\<close>, the directory two
  levels above main.py. A file holds bytes or, for an archive written by \<open>zipfile\<close>,
  its members in order. The file system maps the paths of the existing files to their
  contents.\<close>

type_synonym path = "string list"

datatype content = Bytes string | Zip "(string \<times> content) list"

type_synonym fs = "path \<Rightarrow> content option"

definition UPLOAD_DIR :: path where
  "UPLOAD_DIR = [''data'', ''uploads'']"

definition OUTPUT_DIR :: path where
  "OUTPUT_DIR = [''data'', ''outputs'']"

definition TMP_DIR :: path where
  "TMP_DIR = [''data'', ''tmp'']"

definition TEMPLATE_NAME :: string where
  "TEMPLATE_NAME = ''template.docx''"

text \<open>\<open>str(path)\<close> on a POSIX system; \<open>base\<close> is \<open>str(BASE_DIR)\<close> (empty for the root).\<close>

definition str_path :: "string \<Rightarrow> path \<Rightarrow> string" where
  "str_path base p = base @ concat (map (\<lambda>c. ''/'' @ c) p)"

text \<open>\<open>path.name\<close>, the last component.\<close>

definition name_of :: "path \<Rightarrow> string" where
  "name_of p = (if p = [] then [] else last p)"

text \<open>\<open>PurePath.suffix\<close> of a name: from the last dot on, unless that dot is the first
  or the last character; \<open>stem\<close> is the name without it; \<open>with_suffix\<close> replaces it.\<close>

definition path_suffix :: "string \<Rightarrow> string" where
  "path_suffix name =
     (let ext = rev (takeWhile (\<lambda>c. c \<noteq> CHR ''.'') (rev name))
      in if CHR ''.'' \<in> set name \<and> ext \<noteq> [] \<and> length ext + 1 < length name
         then CHR ''.'' # ext else [])"

definition stem :: "string \<Rightarrow> string" where
  "stem name = take (length name - length (path_suffix name)) name"

definition with_suffix :: "string \<Rightarrow> string \<Rightarrow> string" where
  "with_suffix name new_suffix = stem name @ new_suffix"

text \<open>\<open>s.replace(old, new)\<close>: every occurrence, left to right, without overlap.\<close>

function replace :: "string \<Rightarrow> string \<Rightarrow> string \<Rightarrow> string" where
  "replace [] old new = (if old = [] then new else [])"
| "replace (c # cs) old new =
     (if old = [] then new @ c # replace cs old new
      else if prefix old (c # cs) then new @ replace (drop (length old) (c # cs)) old new
      else c # replace cs old new)"
  by pat_completeness auto
termination
  by (relation "measure (\<lambda>(s, old, new). length s)") (auto simp: neq_Nil_conv)

text \<open>\<open>s.lower()\<close> on the ASCII letters. No character outside ASCII lowers to one of
  \<open>.\<close>, \<open>d\<close>, \<open>o\<close>, \<open>c\<close>, \<open>x\<close>, so the test \<open>s.lower().endswith(".docx")\<close> is exact.\<close>

definition lower_char :: "char \<Rightarrow> char" where
  "lower_char c =
     (case map_of (zip ''ABCDEFGHIJKLMNOPQRSTUVWXYZ'' ''abcdefghijklmnopqrstuvwxyz'') c of
        None \<Rightarrow> c | Some l \<Rightarrow> l)"

definition lower :: "string \<Rightarrow> string" where
  "lower s = map lower_char s"

subsection \<open>The clock\<close>

record datetime =
  year :: nat
  month :: nat
  day :: nat
  hour :: nat
  minute :: nat
  second :: nat
  microsecond :: nat

text \<open>What \<open>datetime.now()\<close> can return.\<close>

definition valid_datetime :: "datetime \<Rightarrow> bool" where
  "valid_datetime d \<longleftrightarrow>
     1000 \<le> year d \<and> year d \<le> 9999 \<and> 1 \<le> month d \<and> month d \<le> 12 \<and>
     1 \<le> day d \<and> day d \<le> 31 \<and> hour d < 24 \<and> minute d < 60 \<and> second d < 60 \<and>
     microsecond d < 1000000"

definition digit :: "nat \<Rightarrow> char" where
  "digit n = ''0123456789'' ! (n mod 10)"

definition pad2 :: "nat \<Rightarrow> string" where
  "pad2 n = [digit (n div 10), digit n]"

definition pad4 :: "nat \<Rightarrow> string" where
  "pad4 n = [digit (n div 1000), digit (n div 100), digit (n div 10), digit n]"

text \<open>\<open>d.strftime("%Y%m%d%H%M%S")\<close>.\<close>

definition strftime :: "datetime \<Rightarrow> string" where
  "strftime d =
     pad4 (year d) @ pad2 (month d) @ pad2 (day d) @ pad2 (hour d) @ pad2 (minute d)
     @ pad2 (second d)"

subsection \<open>External collaborators\<close>

text \<open>\<open>Environment(autoescape=False, undefined=StrictUndefined)\<close>.\<close>

datatype undefined_type = Undefined | StrictUndefined

record jinja_environment =
  autoescape :: bool
  undefined_class :: undefined_type

record completed_process =
  returncode :: int
  stdout :: string
  stderr :: string

text \<open>
  \<^item> \<open>base_dir\<close>: \<open>str(BASE_DIR)\<close>;
  \<^item> \<open>json_loads\<close>: \<open>json.loads\<close>, \<open>Inl e\<close> a \<open>JSONDecodeError\<close> with message \<open>e\<close>;
  \<^item> \<open>DocxTemplate\<close>: opening the template file, \<open>Inl e\<close> an exception with message \<open>e\<close>;
  \<^item> \<open>docx_render\<close>: \<open>document.render(context, jinja_env)\<close> followed by the bytes that
    \<open>document.save\<close> writes, \<open>Inl e\<close> an exception with message \<open>e\<close>;
  \<^item> \<open>datetime_now\<close>: the value of \<open>datetime.now()\<close> during the request;
  \<^item> \<open>subprocess_run\<close>: \<open>subprocess.run(command, capture_output=True, text=True)\<close> on
    the current file system. \<open>None\<close>: the program could not be started
    (\<open>FileNotFoundError\<close>). Otherwise the completed process and the output file it
    wrote, if any.
\<close>

record 'tpl env =
  base_dir :: string
  json_loads :: "string \<Rightarrow> string + json"
  DocxTemplate :: "content \<Rightarrow> string + 'tpl"
  docx_render :: "jinja_environment \<Rightarrow> 'tpl \<Rightarrow> pydict \<Rightarrow> string + string"
  datetime_now :: datetime
  subprocess_run :: "string list \<Rightarrow> fs \<Rightarrow> (completed_process \<times> content option) option"

subsection \<open>Responses\<close>

text \<open>The only background task of the source is \<open>lambda: zip_path.unlink(missing_ok=True)\<close>.\<close>

datatype background_task = Unlink path

datatype response =
    JSONResponse "(string \<times> string) list"
  | FileResponse path string string "background_task option"

definition docx_media_type :: string where
  "docx_media_type =
     ''application/vnd.openxmlformats-officedocument.wordprocessingml.document''"

subsection \<open>Template upload\<close>

definition upload_template :: "string \<Rightarrow> fs \<Rightarrow> upload_file \<Rightarrow> fs \<times> (exc + response)" where
  "upload_template base fs file =
     (if \<not> suffix ''.docx'' (lower (filename file)) then
        (fs, Inl (HTTPException 400 msg_docx_only))
      else
        (let destination = UPLOAD_DIR @ [TEMPLATE_NAME]
         in (fs(destination \<mapsto> Bytes (file_bytes file)),
             Inr (JSONResponse [(''message'', msg_template_updated),
                                (''path'', str_path base destination)]))))"

subsection \<open>Render\<close>

definition render_docx :: "'tpl env \<Rightarrow> fs \<Rightarrow> pydict \<Rightarrow> fs \<times> (exc + path)" where
  "render_docx env fs context =
     (let template_path = UPLOAD_DIR @ [TEMPLATE_NAME]
      in case fs template_path of
           None \<Rightarrow> (fs, Inl (HTTPException 400 msg_template_missing))
         | Some template \<Rightarrow>
             (case DocxTemplate env template of
                Inl e \<Rightarrow> (fs, Inl (HTTPException 500 (msg_template_load_failed @ e)))
              | Inr document \<Rightarrow>
                  (let jinja_env = \<lparr>autoescape = False, undefined_class = StrictUndefined\<rparr>
                   in case docx_render env jinja_env document context of
                        Inl e \<Rightarrow> (fs, Inl (HTTPException 400 (msg_render_failed @ e)))
                      | Inr rendered \<Rightarrow>
                          (let timestamp = strftime (datetime_now env);
                               output_name = ''output_'' @ timestamp @ ''.docx'';
                               output_path = OUTPUT_DIR @ [output_name]
                           in (fs(output_path \<mapsto> Bytes rendered), Inr output_path)))))"

subsection \<open>Convert\<close>

text \<open>Modelled from the spec: the converter is an external process. Its effect on the
  file system is the one of the spec's process contract, ``Output: a sibling file in
  the alternate format'': the file it wrote, if any, is stored at \<open>pdf_path\<close>.\<close>

definition convert_to_pdf :: "'tpl env \<Rightarrow> fs \<Rightarrow> path \<Rightarrow> fs \<times> (exc + path)" where
  "convert_to_pdf env fs docx_path =
     (let pdf_name = with_suffix (name_of docx_path) ''.pdf'';
          pdf_path = OUTPUT_DIR @ [pdf_name];
          command = [''soffice'', ''--headless'', ''--convert-to'', ''pdf'',
                     str_path (base_dir env) docx_path, ''--outdir'',
                     str_path (base_dir env) OUTPUT_DIR]
      in case subprocess_run env command fs of
           None \<Rightarrow> (fs, Inl FileNotFoundError)
         | Some (result, written) \<Rightarrow>
             (let fs' = (case written of None \<Rightarrow> fs | Some c \<Rightarrow> fs(pdf_path \<mapsto> c))
              in if returncode result \<noteq> 0 then
                   (fs', Inl (HTTPException 500
                      (msg_pdf_convert_failed
                       @ (if stderr result \<noteq> [] then stderr result else stdout result))))
                 else if fs' pdf_path = None then
                   (fs', Inl (HTTPException 500 msg_pdf_not_generated))
                 else (fs', Inr pdf_path)))"

subsection \<open>Generate\<close>

text \<open>A request to \<open>/generate\<close>: the content-type header if present, the raw body, and
  the form that \<open>request.form()\<close> parses from it.\<close>

record request =
  content_type_header :: "string option"
  body :: string
  form :: "(string \<times> form_value) list"

text \<open>The first block of \<open>generate\<close> (lines 164 to 171). \<open>request.json()\<close> is
  \<open>json.loads\<close> of the body; its \<open>JSONDecodeError\<close> is not caught.\<close>

definition generate_context :: "'tpl env \<Rightarrow> request \<Rightarrow> exc + (pydict \<times> bool)" where
  "generate_context env request =
     (let content_type = (case content_type_header request of None \<Rightarrow> [] | Some v \<Rightarrow> v)
      in if contains content_type ''application/json'' then
           (case json_loads env (body request) of
              Inl e \<Rightarrow> Inl (JSONDecodeError e)
            | Inr payload \<Rightarrow>
                load_context_from_request (json_loads env) content_type (Payload payload))
         else
           load_context_from_request (json_loads env) content_type
             (FormData (form request)))"

text \<open>The zip step (lines 187 to 202). Opening \<open>zip_path\<close> for writing creates the
  file; \<open>archive.write\<close> reads each artifact from disk.\<close>

definition package :: "fs \<Rightarrow> path \<Rightarrow> path \<Rightarrow> fs \<times> (exc + response)" where
  "package fs docx_path pdf_path =
     (let timestamp = replace (stem (name_of docx_path)) ''output_'' [];
          zip_path = TMP_DIR @ [''output_'' @ timestamp @ ''.zip'']
      in case fs docx_path of
           None \<Rightarrow> (fs(zip_path \<mapsto> Zip []), Inl FileNotFoundError)
         | Some d \<Rightarrow>
             (case fs pdf_path of
                None \<Rightarrow> (fs(zip_path \<mapsto> Zip [(name_of docx_path, d)]), Inl FileNotFoundError)
              | Some p \<Rightarrow>
                  (fs(zip_path \<mapsto> Zip [(name_of docx_path, d), (name_of pdf_path, p)]),
                   Inr (FileResponse zip_path ''application/zip'' (name_of zip_path)
                          (Some (Unlink zip_path))))))"

definition generate :: "'tpl env \<Rightarrow> fs \<Rightarrow> request \<Rightarrow> fs \<times> (exc + response)" where
  "generate env fs request =
     (case generate_context env request of
        Inl e \<Rightarrow> (fs, Inl e)
      | Inr (context, generate_pdf) \<Rightarrow>
          (case render_docx env fs context of
             (fs1, Inl e) \<Rightarrow> (fs1, Inl e)
           | (fs1, Inr docx_path) \<Rightarrow>
               if \<not> generate_pdf then
                 (fs1, Inr (FileResponse docx_path docx_media_type (name_of docx_path) None))
               else
                 (case convert_to_pdf env fs1 docx_path of
                    (fs2, Inl e) \<Rightarrow> (fs2, Inl e)
                  | (fs2, Inr pdf_path) \<Rightarrow> package fs2 docx_path pdf_path)))"

text \<open>Modelled from the spec: the web framework that sends a response is not under
  src/. ``Stream it, then delete the zip after the response completes'': the body of
  a file response is the file at its path when it is sent, and the background task
  runs after the body has been sent.\<close>

definition response_body :: "fs \<Rightarrow> response \<Rightarrow> content option" where
  "response_body fs r = (case r of FileResponse p _ _ _ \<Rightarrow> fs p | JSONResponse _ \<Rightarrow> None)"

definition after_response :: "fs \<Rightarrow> response \<Rightarrow> fs" where
  "after_response fs r =
     (case r of
        FileResponse _ _ _ (Some (Unlink p)) \<Rightarrow> fs(p := None)
      | _ \<Rightarrow> fs)"

subsection \<open>A strict templating engine and sample collaborators\<close>

text \<open>Modelled from the spec: the templating engine (docxtpl with jinja2) is an external
  library. ``Placeholder: a named substitution point inside a template, replaced by a
  value from the generation context at render time.'' ``Strict-undefined rendering: a
  rendering mode where referencing an unset placeholder is an error, not a blank
  substitution.'' An engine is strict for a notion of placeholder when, under
  \<open>StrictUndefined\<close>, it raises for every template that has a placeholder whose name
  is not a key of the context.\<close>

definition strict_undefined ::
  "(jinja_environment \<Rightarrow> 'tpl \<Rightarrow> pydict \<Rightarrow> string + string) \<Rightarrow> ('tpl \<Rightarrow> string set) \<Rightarrow> bool"
  where
  "strict_undefined render_fn placeholders \<longleftrightarrow>
     (\<forall>jinja_env document context.
        undefined_class jinja_env = StrictUndefined \<and>
        (\<exists>n \<in> placeholders document. n \<notin> fst ` set context)
        \<longrightarrow> (\<exists>m. render_fn jinja_env document context = Inl m))"

text \<open>A small engine of that kind, used for the examples: a template is a text with
  placeholders \<open>{{name}}\<close>, and only string values are substituted.\<close>

datatype segment = Text string | Placeholder string

fun scan :: "bool \<Rightarrow> string \<Rightarrow> string \<Rightarrow> segment list" where
  "scan inside acc [] = [Text (rev acc)]"
| "scan inside acc [c] = [Text (rev (c # acc))]"
| "scan inside acc (c # d # cs) =
     (if \<not> inside \<and> c = CHR ''{'' \<and> d = CHR ''{'' then Text (rev acc) # scan True [] cs
      else if inside \<and> c = CHR ''}'' \<and> d = CHR ''}'' then Placeholder (rev acc) # scan False [] cs
      else scan inside (c # acc) (d # cs))"

definition sample_load :: "content \<Rightarrow> string + segment list" where
  "sample_load c = (case c of Bytes s \<Rightarrow> Inr (scan False [] s) | Zip _ \<Rightarrow> Inl ''not a template'')"

definition sample_placeholders :: "segment list \<Rightarrow> string set" where
  "sample_placeholders document = {n. Placeholder n \<in> set document}"

fun substitute :: "undefined_type \<Rightarrow> segment list \<Rightarrow> pydict \<Rightarrow> string + string" where
  "substitute u [] context = Inr []"
| "substitute u (Text t # segs) context =
     (case substitute u segs context of Inl m \<Rightarrow> Inl m | Inr out \<Rightarrow> Inr (t @ out))"
| "substitute u (Placeholder n # segs) context =
     (case map_of context n of
        Some (JStr v) \<Rightarrow>
          (case substitute u segs context of Inl m \<Rightarrow> Inl m | Inr out \<Rightarrow> Inr (v @ out))
      | Some _ \<Rightarrow> Inl (''unsupported value for '' @ n)
      | None \<Rightarrow>
          (case u of
             StrictUndefined \<Rightarrow> Inl (n @ '' is undefined'')
           | Undefined \<Rightarrow> substitute u segs context))"

definition sample_render :: "jinja_environment \<Rightarrow> segment list \<Rightarrow> pydict \<Rightarrow> string + string" where
  "sample_render jinja_env document context =
     substitute (undefined_class jinja_env) document context"

text \<open>\<open>json.loads\<close> tabulated on the texts the examples use; the messages are those of
  CPython.\<close>

definition sample_loads :: "string \<Rightarrow> string + json" where
  \<open>sample_loads s =
     (if s = ''{"dept_name": "X", "requester": "Y"}'' then
        Inr (JDict [(''dept_name'', JStr ''X''), (''requester'', JStr ''Y'')])
      else if s = ''{"data": {"dept_name": "X", "requester": "Y"}, "generate_pdf": true}'' then
        Inr (JDict [(''data'', JDict [(''dept_name'', JStr ''X''), (''requester'', JStr ''Y'')]),
                    (''generate_pdf'', JBool True)])
      else if s = ''{"dept_name": "X"}'' then Inr (JDict [(''dept_name'', JStr ''X'')])
      else if s = ''[1, 2]'' then Inr (JList [JInt 1, JInt 2])
      else if s = ''{'' then
        Inl ''Expecting property name enclosed in double quotes: line 1 column 2 (char 1)''
      else Inl ''Expecting value: line 1 column 1 (char 0)'')\<close>

text \<open>Three converters: one that succeeds, one that exits with status 1, and one
  that exits with status 0 without writing a file.\<close>

definition soffice_ok :: "string list \<Rightarrow> fs \<Rightarrow> (completed_process \<times> content option) option" where
  "soffice_ok command fs =
     Some (\<lparr>returncode = 0, stdout = ''convert done'', stderr = []\<rparr>, Some (Bytes ''%PDF-1.4''))"

definition soffice_fail :: "string list \<Rightarrow> fs \<Rightarrow> (completed_process \<times> content option) option" where
  "soffice_fail command fs =
     Some (\<lparr>returncode = 1, stdout = [], stderr = ''Error: source file could not be loaded''\<rparr>,
           None)"

definition soffice_silent :: "string list \<Rightarrow> fs \<Rightarrow> (completed_process \<times> content option) option" where
  "soffice_silent command fs =
     Some (\<lparr>returncode = 0, stdout = ''convert started'', stderr = ''warning: no filter''\<rparr>,
           None)"

definition noon :: datetime where
  "noon = \<lparr>year = 2024, month = 5, day = 17, hour = 12, minute = 0, second = 0,
           microsecond = 250000\<rparr>"

definition sample_env :: "segment list env" where
  "sample_env =
     \<lparr>base_dir = ''/srv/forum8'', json_loads = sample_loads, DocxTemplate = sample_load,
      docx_render = sample_render, datetime_now = noon, subprocess_run = soffice_ok\<rparr>"

text \<open>A file system holding only a template, and the two requests of the home page's
  example context.\<close>

definition sample_template :: string where
  "sample_template = ''Dept: {{dept_name}}, by {{requester}}''"

definition no_files :: fs where
  "no_files = Map.empty"

definition fs_with_template :: fs where
  "fs_with_template = no_files(UPLOAD_DIR @ [TEMPLATE_NAME] \<mapsto> Bytes sample_template)"

definition form_request :: "string \<Rightarrow> string option \<Rightarrow> request" where
  "form_request json_text pdf =
     \<lparr>content_type_header = Some ''application/x-www-form-urlencoded'', body = [],
      form = (''json_data'', FStr json_text)
             # (case pdf of None \<Rightarrow> [] | Some v \<Rightarrow> [(''generate_pdf'', FStr v)])\<rparr>"

definition json_request :: "string \<Rightarrow> request" where
  "json_request text =
     \<lparr>content_type_header = Some ''application/json'', body = text, form = []\<rparr>"

definition failing_env :: "segment list env" where
  "failing_env = sample_env\<lparr>subprocess_run := soffice_fail\<rparr>"

definition silent_env :: "segment list env" where
  "silent_env = sample_env\<lparr>subprocess_run := soffice_silent\<rparr>"

text \<open>The artifact paths of a request served at \<open>noon\<close>.\<close>

definition sample_docx :: path where
  "sample_docx = OUTPUT_DIR @ [''output_20240517120000.docx'']"

definition sample_pdf :: path where
  "sample_pdf = OUTPUT_DIR @ [''output_20240517120000.pdf'']"

definition sample_zip :: path where
  "sample_zip = TMP_DIR @ [''output_20240517120000.zip'']"

text \<open>A second reading of the clock within the same second as \<open>noon\<close>.\<close>

definition noon_later :: datetime where
  "noon_later = \<lparr>year = 2024, month = 5, day = 17, hour = 12, minute = 0, second = 0,
                 microsecond = 750000\<rparr>"

definition later_env :: "segment list env" where
  "later_env = sample_env\<lparr>datetime_now := noon_later\<rparr>"

text \<open>A reading of the clock one second after \<open>noon\<close>, and the artifact path of a
  request served then.\<close>

definition noon_next :: datetime where
  "noon_next = \<lparr>year = 2024, month = 5, day = 17, hour = 12, minute = 0, second = 1,
                microsecond = 0\<rparr>"

definition next_env :: "segment list env" where
  "next_env = sample_env\<lparr>datetime_now := noon_next\<rparr>"

definition sample_docx_next :: path where
  "sample_docx_next = OUTPUT_DIR @ [''output_20240517120001.docx'']"

section \<open>Properties\<close>

lemmas msg_defs =
  msg_docx_only_def msg_template_updated_def msg_json_request_format_def
  msg_data_must_be_object_def msg_form_parse_failed_def msg_missing_json_data_def
  msg_json_parse_error_def msg_root_must_be_object_def msg_template_missing_def
  msg_template_load_failed_def msg_render_failed_def msg_pdf_convert_failed_def
  msg_pdf_not_generated_def

subsection \<open>Context loading\<close>

lemma context_messages_distinct:
  "distinct [msg_json_parse_error @ e, msg_root_must_be_object, msg_missing_json_data,
             msg_json_request_format, msg_data_must_be_object]"
  by (simp add: msg_defs)

lemma form_malformed:
  assumes "\<not> contains ct ''application/json''"
    and "form_get items ''json_data'' = Some (FStr s)" and "s \<noteq> []" and "loads s = Inl e"
  shows "load_context_from_request loads ct (FormData items)
         = Inl (HTTPException 400 (msg_json_parse_error @ e))"
  using assms by (simp add: load_context_from_request_def load_form_data_def)

lemma form_root_not_object:
  assumes "\<not> contains ct ''application/json''"
    and "form_get items ''json_data'' = Some (FStr s)" and "s \<noteq> []" and "loads s = Inr j"
    and "\<forall>c. j \<noteq> JDict c"
  shows "load_context_from_request loads ct (FormData items)
         = Inl (HTTPException 400 msg_root_must_be_object)"
  using assms by (cases j) (simp_all add: load_context_from_request_def load_form_data_def)

lemma form_missing_json_data:
  assumes "\<not> contains ct ''application/json''" and "form_get items ''json_data'' = None"
  shows "load_context_from_request loads ct (FormData items)
         = Inl (HTTPException 400 msg_missing_json_data)"
  using assms by (simp add: load_context_from_request_def load_form_data_def)

lemma json_root_not_object:
  assumes "contains ct ''application/json''" and "\<forall>c. j \<noteq> JDict c"
  shows "load_context_from_request loads ct (Payload j)
         = Inl (HTTPException 400 msg_json_request_format)"
  using assms by (cases j) (simp_all add: load_context_from_request_def)

lemma json_missing_data:
  assumes "contains ct ''application/json''" and "map_of d ''data'' = None"
  shows "load_context_from_request loads ct (Payload (JDict d))
         = Inl (HTTPException 400 msg_data_must_be_object)"
  using assms by (simp add: load_context_from_request_def)

text \<open>
  The failures that \<open>_load_context_from_request\<close> itself raises: malformed JSON in the
  form path, a root value that is not a JSON object (the decoded \<open>json_data\<close> in the
  form path, the payload in the JSON path) and a missing required field (\<open>json_data\<close>
  in the form path, \<open>data\<close> in the JSON path) each raise an \<open>HTTPException\<close> with
  status 400, and the messages of different conditions are pairwise different,
  whatever the parser's message is.
\<close>

lemma context_loading_errors_distinct:
  assumes form_path: "\<not> contains ct_form ''application/json''"
    and json_path: "contains ct_json ''application/json''"
    and malformed: "form_get items_a ''json_data'' = Some (FStr sa)" "sa \<noteq> []"
      "loads sa = Inl e"
    and form_root: "form_get items_b ''json_data'' = Some (FStr sb)" "sb \<noteq> []"
      "loads sb = Inr jb" "\<forall>c. jb \<noteq> JDict c"
    and form_missing: "form_get items_c ''json_data'' = None"
    and json_root: "\<forall>c. jd \<noteq> JDict c"
    and json_missing: "map_of de ''data'' = None"
  shows "\<exists>ma mb mc md me.
           load_context_from_request loads ct_form (FormData items_a) = Inl (HTTPException 400 ma) \<and>
           load_context_from_request loads ct_form (FormData items_b) = Inl (HTTPException 400 mb) \<and>
           load_context_from_request loads ct_form (FormData items_c) = Inl (HTTPException 400 mc) \<and>
           load_context_from_request loads ct_json (Payload jd) = Inl (HTTPException 400 md) \<and>
           load_context_from_request loads ct_json (Payload (JDict de)) = Inl (HTTPException 400 me) \<and>
           ma = msg_json_parse_error @ e \<and> distinct [ma, mb, mc, md, me]"
proof -
  have a: "load_context_from_request loads ct_form (FormData items_a)
           = Inl (HTTPException 400 (msg_json_parse_error @ e))"
    using form_path malformed by (rule form_malformed)
  have b: "load_context_from_request loads ct_form (FormData items_b)
           = Inl (HTTPException 400 msg_root_must_be_object)"
    using form_path form_root by (rule form_root_not_object)
  have c: "load_context_from_request loads ct_form (FormData items_c)
           = Inl (HTTPException 400 msg_missing_json_data)"
    using form_path form_missing by (rule form_missing_json_data)
  have d: "load_context_from_request loads ct_json (Payload jd)
           = Inl (HTTPException 400 msg_json_request_format)"
    using json_path json_root by (rule json_root_not_object)
  have e: "load_context_from_request loads ct_json (Payload (JDict de))
           = Inl (HTTPException 400 msg_data_must_be_object)"
    using json_path json_missing by (rule json_missing_data)
  from a b c d e context_messages_distinct [of e] show ?thesis by blast
qed

lemma context_loading_errors_distinct_example:
  "\<exists>ma mb mc md me.
     load_context_from_request sample_loads ''multipart/form-data''
       (FormData [(''json_data'', FStr ''{'')]) = Inl (HTTPException 400 ma) \<and>
     load_context_from_request sample_loads ''multipart/form-data''
       (FormData [(''json_data'', FStr ''[1, 2]'')]) = Inl (HTTPException 400 mb) \<and>
     load_context_from_request sample_loads ''multipart/form-data''
       (FormData [(''generate_pdf'', FStr ''on'')]) = Inl (HTTPException 400 mc) \<and>
     load_context_from_request sample_loads ''application/json'' (Payload (JList []))
       = Inl (HTTPException 400 md) \<and>
     load_context_from_request sample_loads ''application/json''
       (Payload (JDict [(''generate_pdf'', JBool True)])) = Inl (HTTPException 400 me) \<and>
     ma = msg_json_parse_error
          @ ''Expecting property name enclosed in double quotes: line 1 column 2 (char 1)'' \<and>
     distinct [ma, mb, mc, md, me]"
  by (rule context_loading_errors_distinct
      [where sa = "''{''" and sb = "''[1, 2]''" and jb = "JList [JInt 1, JInt 2]"])
    (simp_all add: form_get_def sample_loads_def)

text \<open>
  Claim C5. Context loading has three failure conditions: malformed JSON, a root
  value that is not a JSON object, and a missing required field. In the
  \<open>application/json\<close> path the first of them does not produce a client error: the
  \<open>JSONDecodeError\<close> that \<open>request.json()\<close> raises on a malformed body is not caught,
  so context loading ends in that exception and in no \<open>HTTPException\<close> with status
  400, unlike the other conditions and unlike malformed JSON in the form path.
\<close>

theorem context_loading_malformed_json_body:
  assumes "content_type_header request = Some ct"
    and "contains ct ''application/json''"
    and "json_loads env (body request) = Inl e"
  shows "generate_context env request = Inl (JSONDecodeError e) \<and>
         (\<forall>detail. generate_context env request \<noteq> Inl (HTTPException 400 detail))"
  using assms by (simp add: generate_context_def)

theorem context_loading_malformed_json_body_witness:
  "generate_context sample_env (json_request ''{'')
   = Inl (JSONDecodeError
            ''Expecting property name enclosed in double quotes: line 1 column 2 (char 1)'') \<and>
   (\<forall>detail. generate_context sample_env (json_request ''{'')
              \<noteq> Inl (HTTPException 400 detail))"
proof -
  have header: "content_type_header (json_request ''{'') = Some ''application/json''"
    by (simp add: json_request_def)
  have json: "contains ''application/json'' ''application/json''"
    by simp
  have malformed: "json_loads sample_env (body (json_request ''{''))
    = Inl ''Expecting property name enclosed in double quotes: line 1 column 2 (char 1)''"
    by (simp add: json_request_def sample_env_def sample_loads_def)
  from context_loading_malformed_json_body [OF header json malformed] show ?thesis .
qed





subsection \<open>Malformed JSON in \<open>generate\<close>\<close>

text \<open>
  Claim C1. A generate request whose JSON text is malformed: in the form path the
  \<open>JSONDecodeError\<close> of \<open>json.loads\<close> is caught and raised again as an
  \<open>HTTPException\<close> with status 400 whose detail ends with the parser's message; in
  the \<open>application/json\<close> path the \<open>JSONDecodeError\<close> of \<open>request.json()\<close> is not
  caught and leaves \<open>generate\<close> as it is, so the request does not end in an
  \<open>HTTPException\<close> with status 400.
\<close>

theorem generate_malformed_json:
  assumes "ct = (case content_type_header request of None \<Rightarrow> [] | Some v \<Rightarrow> v)"
  shows "(contains ct ''application/json'' \<longrightarrow> json_loads env (body request) = Inl e \<longrightarrow>
            generate env fs request = (fs, Inl (JSONDecodeError e))) \<and>
         (\<not> contains ct ''application/json'' \<longrightarrow>
            form_get (form request) ''json_data'' = Some (FStr text) \<longrightarrow> text \<noteq> [] \<longrightarrow>
            json_loads env text = Inl e \<longrightarrow>
            generate env fs request = (fs, Inl (HTTPException 400 (msg_json_parse_error @ e))))"
  using assms
  by (simp add: generate_def generate_context_def form_malformed)

theorem generate_malformed_json_witness:
  "generate sample_env fs_with_template (json_request ''{'')
   = (fs_with_template,
      Inl (JSONDecodeError
             ''Expecting property name enclosed in double quotes: line 1 column 2 (char 1)'')) \<and>
   generate sample_env fs_with_template (form_request ''{'' None)
   = (fs_with_template,
      Inl (HTTPException 400 (msg_json_parse_error @
             ''Expecting property name enclosed in double quotes: line 1 column 2 (char 1)'')))"
proof -
  let ?e = "''Expecting property name enclosed in double quotes: line 1 column 2 (char 1)''"
  have "generate sample_env fs_with_template (json_request ''{'')
        = (fs_with_template, Inl (JSONDecodeError ?e))"
    using generate_malformed_json
      [of "''application/json''" "json_request ''{''" sample_env ?e fs_with_template]
    by (simp add: json_request_def sample_env_def sample_loads_def)
  moreover have "generate sample_env fs_with_template (form_request ''{'' None)
        = (fs_with_template, Inl (HTTPException 400 (msg_json_parse_error @ ?e)))"
    using generate_malformed_json
      [of "''application/x-www-form-urlencoded''" "form_request ''{'' None" sample_env ?e
          fs_with_template "''{''"]
    by (simp add: form_request_def sample_env_def sample_loads_def form_get_def)
  ultimately show ?thesis by simp
qed

subsection \<open>Render\<close>

lemma render_docx_no_template:
  "fs (UPLOAD_DIR @ [TEMPLATE_NAME]) = None \<Longrightarrow>
   render_docx env fs context = (fs, Inl (HTTPException 400 msg_template_missing))"
  by (simp add: render_docx_def)

lemma render_docx_error_keeps_fs:
  "render_docx env fs context = (fs', Inl e) \<Longrightarrow> fs' = fs"
  by (auto simp: render_docx_def Let_def split: option.splits sum.splits)

lemma render_docx_render_error:
  assumes "fs (UPLOAD_DIR @ [TEMPLATE_NAME]) = Some template"
    and "DocxTemplate env template = Inr document"
    and "docx_render env \<lparr>autoescape = False, undefined_class = StrictUndefined\<rparr> document context
         = Inl m"
  shows "render_docx env fs context = (fs, Inl (HTTPException 400 (msg_render_failed @ m)))"
  using assms by (simp add: render_docx_def)

lemma render_docx_success:
  assumes "render_docx env fs context = (fs', Inr p)"
  shows "\<exists>template document rendered.
           fs (UPLOAD_DIR @ [TEMPLATE_NAME]) = Some template \<and>
           DocxTemplate env template = Inr document \<and>
           docx_render env \<lparr>autoescape = False, undefined_class = StrictUndefined\<rparr> document
             context = Inr rendered \<and>
           p = OUTPUT_DIR @ [''output_'' @ strftime (datetime_now env) @ ''.docx''] \<and>
           fs' = fs(p \<mapsto> Bytes rendered)"
  using assms by (auto simp: render_docx_def Let_def split: option.splits sum.splits)

lemma generate_render_error:
  assumes "generate_context env request = Inr (context, generate_pdf)"
    and "render_docx env fs context = (fs', Inl e)"
  shows "generate env fs request = (fs', Inl e)"
  using assms by (simp add: generate_def)

text \<open>
  Claim C2, as amended. While no template file exists at the fixed upload path, every
  generate request fails and leaves the file system as it was, so it writes no
  artifact. The failure is that of context loading when the context does not load,
  and otherwise the template-missing \<open>HTTPException\<close> with status 400.
\<close>

theorem generate_without_template:
  assumes "fs (UPLOAD_DIR @ [TEMPLATE_NAME]) = None"
  shows "generate env fs request =
           (fs, Inl (case generate_context env request of
                       Inl e \<Rightarrow> e
                     | Inr loaded \<Rightarrow> HTTPException 400 msg_template_missing))"
proof (cases "generate_context env request")
  case (Inl e)
  then show ?thesis by (simp add: generate_def)
next
  case (Inr loaded)
  obtain ctx generate_pdf where "loaded = (ctx, generate_pdf)" by (cases loaded)
  with Inr assms show ?thesis
    by (simp add: generate_render_error [OF _ render_docx_no_template])
qed

theorem generate_without_template_witness:
  \<open>generate sample_env no_files (form_request ''{"dept_name": "X"}'' (Some ''on''))
   = (no_files, Inl (HTTPException 400 msg_template_missing))\<close>
  using generate_without_template
    [of no_files sample_env \<open>form_request ''{"dept_name": "X"}'' (Some ''on'')\<close>]
  by (simp add: no_files_def generate_context_def form_request_def sample_env_def
      load_context_from_request_def load_form_data_def form_get_def sample_loads_def)

text \<open>The claim as stated fails: with no template stored, a form request without
  \<open>json_data\<close> fails with the missing-field message, not the template-missing one.\<close>

theorem generate_without_template_counterexample:
  "no_files (UPLOAD_DIR @ [TEMPLATE_NAME]) = None \<and>
   generate sample_env no_files
     \<lparr>content_type_header = Some ''application/x-www-form-urlencoded'', body = [], form = []\<rparr>
   = (no_files, Inl (HTTPException 400 msg_missing_json_data)) \<and>
   HTTPException 400 msg_missing_json_data \<noteq> HTTPException 400 msg_template_missing"
  by (simp add: no_files_def generate_def generate_context_def sample_env_def
      load_context_from_request_def load_form_data_def form_get_def msg_defs)

lemma substitute_strict:
  "Placeholder n \<in> set document \<Longrightarrow> n \<notin> fst ` set context \<Longrightarrow>
   \<exists>m. substitute StrictUndefined document context = Inl m"
proof (induction document)
  case Nil
  then show ?case by simp
next
  case (Cons seg document)
  show ?case
  proof (cases seg)
    case (Text t)
    with Cons obtain m where "substitute StrictUndefined document context = Inl m" by auto
    with Text show ?thesis by simp
  next
    case (Placeholder k)
    show ?thesis
    proof (cases "map_of context k")
      case None
      with Placeholder show ?thesis by simp
    next
      case (Some v)
      then have "k \<in> fst ` set context" by (force dest: map_of_SomeD)
      with Cons Placeholder have "Placeholder n \<in> set document" by auto
      with Cons obtain m where "substitute StrictUndefined document context = Inl m" by auto
      with Placeholder Some show ?thesis by (cases v) simp_all
    qed
  qed
qed

lemma strict_undefinedD:
  assumes "strict_undefined render_fn placeholders"
    and "undefined_class jinja_env = StrictUndefined"
    and "n \<in> placeholders document" and "n \<notin> fst ` set ctx"
  shows "\<exists>m. render_fn jinja_env document ctx = Inl m"
proof -
  from assms(3,4) have "\<exists>n \<in> placeholders document. n \<notin> fst ` set ctx" by blast
  with assms(1,2) show ?thesis unfolding strict_undefined_def by blast
qed

lemma sample_render_strict: "strict_undefined sample_render sample_placeholders"
  unfolding strict_undefined_def sample_render_def sample_placeholders_def
  using substitute_strict by fastforce

text \<open>
  Claim C3. For every stored template that loads and every context: when the template
  has a placeholder whose name is not a key of the context, and the templating engine
  is strict about undefined names, rendering raises with some message \<open>m\<close>;
  \<open>_render_docx\<close>, which renders under \<open>StrictUndefined\<close>, then raises an
  \<open>HTTPException\<close> with status 400 whose detail ends with \<open>m\<close>, the request fails with
  it, and no document, with or without an empty substitution, is written.
\<close>

theorem render_missing_placeholder:
  assumes "strict_undefined (docx_render env) placeholders"
    and "fs (UPLOAD_DIR @ [TEMPLATE_NAME]) = Some template"
    and "DocxTemplate env template = Inr document"
    and "n \<in> placeholders document" and "n \<notin> fst ` set ctx"
    and "generate_context env request = Inr (ctx, generate_pdf)"
  shows "\<exists>m. docx_render env \<lparr>autoescape = False, undefined_class = StrictUndefined\<rparr> document ctx
               = Inl m \<and>
             render_docx env fs ctx = (fs, Inl (HTTPException 400 (msg_render_failed @ m))) \<and>
             generate env fs request = (fs, Inl (HTTPException 400 (msg_render_failed @ m)))"
proof -
  let ?jinja_env = "\<lparr>autoescape = False, undefined_class = StrictUndefined\<rparr>"
  have "undefined_class ?jinja_env = StrictUndefined" by simp
  with assms(1) have "\<exists>m. docx_render env ?jinja_env document ctx = Inl m"
    using assms(4,5) by (rule strict_undefinedD)
  then obtain m where m: "docx_render env ?jinja_env document ctx = Inl m" ..
  with assms(2,3)
  have r: "render_docx env fs ctx = (fs, Inl (HTTPException 400 (msg_render_failed @ m)))"
    by (rule render_docx_render_error)
  with assms(6)
  have "generate env fs request = (fs, Inl (HTTPException 400 (msg_render_failed @ m)))"
    by (rule generate_render_error)
  with m r show ?thesis by blast
qed

theorem render_missing_placeholder_witness:
  \<open>strict_undefined (docx_render sample_env) sample_placeholders \<and>
   render_docx sample_env fs_with_template [(''dept_name'', JStr ''X'')]
   = (fs_with_template, Inl (HTTPException 400 (msg_render_failed @ ''requester is undefined''))) \<and>
   generate sample_env fs_with_template (form_request ''{"dept_name": "X"}'' None)
   = (fs_with_template, Inl (HTTPException 400 (msg_render_failed @ ''requester is undefined'')))\<close>
proof -
  let ?ctx = "[(''dept_name'', JStr ''X'')]"
  let ?req = \<open>form_request ''{"dept_name": "X"}'' None\<close>
  let ?doc = "[Text ''Dept: '', Placeholder ''dept_name'', Text '', by '',
               Placeholder ''requester'', Text []]"
  have strict: "strict_undefined (docx_render sample_env) sample_placeholders"
    using sample_render_strict by (simp add: sample_env_def)
  have tpl: "fs_with_template (UPLOAD_DIR @ [TEMPLATE_NAME]) = Some (Bytes sample_template)"
    by (simp add: fs_with_template_def)
  have doc: "DocxTemplate sample_env (Bytes sample_template) = Inr ?doc"
    by (simp add: sample_env_def sample_load_def sample_template_def)
  have ph: "''requester'' \<in> sample_placeholders ?doc"
    by (simp add: sample_placeholders_def)
  have missing: "''requester'' \<notin> fst ` set ?ctx" by simp
  have loaded: "generate_context sample_env ?req = Inr (?ctx, False)"
    by (simp add: generate_context_def form_request_def sample_env_def
        load_context_from_request_def load_form_data_def form_get_def sample_loads_def)
  have m: "docx_render sample_env \<lparr>autoescape = False, undefined_class = StrictUndefined\<rparr>
             ?doc ?ctx = Inl ''requester is undefined''"
    by (simp add: sample_env_def sample_render_def)
  have "\<exists>m. docx_render sample_env \<lparr>autoescape = False, undefined_class = StrictUndefined\<rparr>
               ?doc ?ctx = Inl m \<and>
             render_docx sample_env fs_with_template ?ctx
             = (fs_with_template, Inl (HTTPException 400 (msg_render_failed @ m))) \<and>
             generate sample_env fs_with_template ?req
             = (fs_with_template, Inl (HTTPException 400 (msg_render_failed @ m)))"
    using strict tpl doc ph missing loaded
    by (rule render_missing_placeholder
        [where placeholders = sample_placeholders and n = "''requester''"])
  with m strict show ?thesis by simp
qed

subsection \<open>Artifact names\<close>

lemma name_of_in_dir [simp]: "name_of (dir @ [n]) = n"
  by (simp add: name_of_def)

lemma path_suffix_docx: "pre \<noteq> [] \<Longrightarrow> path_suffix (pre @ ''.docx'') = ''.docx''"
  by (simp add: path_suffix_def)

lemma stem_docx: "pre \<noteq> [] \<Longrightarrow> stem (pre @ ''.docx'') = pre"
  by (simp add: stem_def path_suffix_docx)

lemma with_suffix_docx: "pre \<noteq> [] \<Longrightarrow> with_suffix (pre @ ''.docx'') new_suffix = pre @ new_suffix"
  by (simp add: with_suffix_def stem_docx)

lemma stem_output: "stem (''output_'' @ ts @ ''.docx'') = ''output_'' @ ts"
  using stem_docx [of "''output_'' @ ts"] by simp

lemma pdf_name_output:
  "with_suffix (''output_'' @ ts @ ''.docx'') ''.pdf'' = ''output_'' @ ts @ ''.pdf''"
  using with_suffix_docx [of "''output_'' @ ts" "''.pdf''"] by simp

lemma digit_in_digits: "digit n \<in> set ''0123456789''"
  unfolding digit_def by (rule nth_mem) simp

lemma strftime_digits: "set (strftime d) \<subseteq> set ''0123456789''"
  using digit_in_digits by (auto simp: strftime_def pad2_def pad4_def)

lemma replace_no_occurrence:
  "CHR ''o'' \<notin> set ts \<Longrightarrow> replace ts ''output_'' [] = ts"
  by (induction ts) auto

lemma replace_output_prefix:
  "CHR ''o'' \<notin> set ts \<Longrightarrow> replace (''output_'' @ ts) ''output_'' [] = ts"
  by (simp add: replace_no_occurrence)

lemma timestamp_of_stem:
  "replace (''output_'' @ strftime d) ''output_'' [] = strftime d"
proof (rule replace_output_prefix)
  show "CHR ''o'' \<notin> set (strftime d)"
    using strftime_digits [of d] by auto
qed

subsection \<open>Convert\<close>

lemma convert_to_pdf_other_files:
  assumes "convert_to_pdf env fs docx_path = (fs', r)"
    and "p \<noteq> OUTPUT_DIR @ [with_suffix (name_of docx_path) ''.pdf'']"
  shows "fs' p = fs p"
  using assms
  by (auto simp: convert_to_pdf_def Let_def split: option.splits if_splits prod.splits)

lemma convert_to_pdf_success:
  assumes "convert_to_pdf env fs docx_path = (fs', Inr pdf_path)"
  shows "pdf_path = OUTPUT_DIR @ [with_suffix (name_of docx_path) ''.pdf''] \<and>
         (\<exists>pdf. fs' pdf_path = Some pdf)"
  using assms
  by (auto simp: convert_to_pdf_def Let_def split: option.splits if_splits prod.splits)

lemma generate_convert_error:
  assumes "generate_context env request = Inr (ctx, True)"
    and "render_docx env fs ctx = (fs1, Inr docx_path)"
    and "convert_to_pdf env fs1 docx_path = (fs2, Inl e)"
  shows "generate env fs request = (fs2, Inl e)"
  using assms by (simp add: generate_def)

text \<open>
  Claim C10. A render that raises leaves the file system as it was: \<open>_render_docx\<close>
  raises before saving, so a substitution error writes no artifact. When the
  conversion fails after a successful render, the request fails with the
  conversion's exception and the rendered document is still stored at its output
  path.
\<close>

theorem render_atomic_convert_not:
  assumes "generate_context env request = Inr (ctx, True)"
  shows "(render_docx env fs ctx = (fs', Inl e) \<longrightarrow>
            fs' = fs \<and> generate env fs request = (fs, Inl e)) \<and>
         (render_docx env fs ctx = (fs1, Inr docx_path) \<longrightarrow>
          convert_to_pdf env fs1 docx_path = (fs2, Inl e) \<longrightarrow>
            generate env fs request = (fs2, Inl e) \<and>
            (\<exists>rendered. fs1 docx_path = Some (Bytes rendered) \<and>
                        fs2 docx_path = Some (Bytes rendered)))"
proof (intro conjI impI)
  assume r: "render_docx env fs ctx = (fs', Inl e)"
  then show "fs' = fs" by (rule render_docx_error_keeps_fs)
  with assms r show "generate env fs request = (fs, Inl e)"
    by (simp add: generate_render_error)
next
  assume r: "render_docx env fs ctx = (fs1, Inr docx_path)"
    and c: "convert_to_pdf env fs1 docx_path = (fs2, Inl e)"
  from assms r c show "generate env fs request = (fs2, Inl e)"
    by (rule generate_convert_error)
  from render_docx_success [OF r] obtain rendered where
    p: "docx_path = OUTPUT_DIR @ [''output_'' @ strftime (datetime_now env) @ ''.docx'']"
    and saved: "fs1 = fs(docx_path \<mapsto> Bytes rendered)"
    by blast
  from p have "docx_path \<noteq> OUTPUT_DIR @ [with_suffix (name_of docx_path) ''.pdf'']"
    using pdf_name_output [of "strftime (datetime_now env)"] by simp
  with c have "fs2 docx_path = fs1 docx_path" by (rule convert_to_pdf_other_files)
  with saved show "\<exists>rendered. fs1 docx_path = Some (Bytes rendered) \<and>
                              fs2 docx_path = Some (Bytes rendered)"
    by simp
qed

lemmas sample_defs =
  sample_env_def failing_env_def silent_env_def sample_loads_def sample_load_def
  sample_render_def sample_template_def fs_with_template_def no_files_def noon_def
  form_request_def json_request_def soffice_ok_def soffice_fail_def soffice_silent_def
  sample_docx_def sample_pdf_def sample_zip_def

lemmas dir_defs = UPLOAD_DIR_def OUTPUT_DIR_def TMP_DIR_def TEMPLATE_NAME_def

lemmas clock_defs = strftime_def pad2_def pad4_def digit_def

lemmas loader_defs =
  generate_context_def load_context_from_request_def load_form_data_def form_get_def

theorem render_atomic_convert_not_witness:
  \<open>generate failing_env fs_with_template (form_request ''{"dept_name": "X"}'' (Some ''on''))
   = (fs_with_template,
      Inl (HTTPException 400 (msg_render_failed @ ''requester is undefined''))) \<and>
   generate failing_env fs_with_template
     (form_request ''{"dept_name": "X", "requester": "Y"}'' (Some ''on''))
   = (fs_with_template(sample_docx \<mapsto> Bytes ''Dept: X, by Y''),
      Inl (HTTPException 500
             (msg_pdf_convert_failed @ ''Error: source file could not be loaded''))) \<and>
   (fs_with_template(sample_docx \<mapsto> Bytes ''Dept: X, by Y'')) sample_docx
   = Some (Bytes ''Dept: X, by Y'')\<close>
proof -
  let ?bad = \<open>form_request ''{"dept_name": "X"}'' (Some ''on'')\<close>
  let ?good = \<open>form_request ''{"dept_name": "X", "requester": "Y"}'' (Some ''on'')\<close>
  let ?x = "[(''dept_name'', JStr ''X'')]"
  let ?xy = "[(''dept_name'', JStr ''X''), (''requester'', JStr ''Y'')]"
  let ?fs1 = "fs_with_template(sample_docx \<mapsto> Bytes ''Dept: X, by Y'')"
  let ?e400 = "HTTPException 400 (msg_render_failed @ ''requester is undefined'')"
  let ?e500 = "HTTPException 500
                 (msg_pdf_convert_failed @ ''Error: source file could not be loaded'')"
  have bad: "generate_context failing_env ?bad = Inr (?x, True)"
    by (simp add: loader_defs sample_defs)
  have good: "generate_context failing_env ?good = Inr (?xy, True)"
    by (simp add: loader_defs sample_defs)
  have r_bad: "render_docx failing_env fs_with_template ?x = (fs_with_template, Inl ?e400)"
    by (simp add: render_docx_def sample_defs dir_defs)
  have r_good: "render_docx failing_env fs_with_template ?xy = (?fs1, Inr sample_docx)"
    by (simp add: render_docx_def Let_def sample_defs dir_defs clock_defs)
  have c: "convert_to_pdf failing_env ?fs1 sample_docx = (?fs1, Inl ?e500)"
    by (simp add: convert_to_pdf_def Let_def sample_defs)
  from render_atomic_convert_not [OF bad, of fs_with_template fs_with_template ?e400] r_bad
  have "generate failing_env fs_with_template ?bad = (fs_with_template, Inl ?e400)"
    by simp
  moreover
  from render_atomic_convert_not [OF good, of fs_with_template _ ?e500 ?fs1 sample_docx ?fs1]
    r_good c
  have "generate failing_env fs_with_template ?good = (?fs1, Inl ?e500)"
    by simp
  ultimately show ?thesis by simp
qed

text \<open>
  Claim C7, as amended. When the converter process exits with a non-zero status, the
  request fails with an \<open>HTTPException\<close> with status 500 whose detail ends with the
  tool's diagnostic output: its standard error or, when that is empty, its standard
  output. When the process exits with status zero and the expected output file is
  absent afterwards, the request fails with an \<open>HTTPException\<close> with status 500 and
  the fixed detail \<open>msg_pdf_not_generated\<close>, which carries no output of the tool.
\<close>

theorem convert_to_pdf_failures:
  assumes "subprocess_run env
             [''soffice'', ''--headless'', ''--convert-to'', ''pdf'',
              str_path (base_dir env) docx_path, ''--outdir'',
              str_path (base_dir env) OUTPUT_DIR] fs = Some (result, written)"
    and "pdf_path = OUTPUT_DIR @ [with_suffix (name_of docx_path) ''.pdf'']"
    and "fs' = (case written of None \<Rightarrow> fs | Some c \<Rightarrow> fs(pdf_path \<mapsto> c))"
  shows "(returncode result \<noteq> 0 \<longrightarrow>
            convert_to_pdf env fs docx_path
            = (fs', Inl (HTTPException 500
                           (msg_pdf_convert_failed
                            @ (if stderr result = [] then stdout result else stderr result))))) \<and>
         (returncode result = 0 \<longrightarrow> fs' pdf_path = None \<longrightarrow>
            convert_to_pdf env fs docx_path
            = (fs', Inl (HTTPException 500 msg_pdf_not_generated)))"
  using assms by (auto simp: convert_to_pdf_def Let_def)

theorem convert_to_pdf_failures_witness:
  "convert_to_pdf failing_env fs_with_template sample_docx
   = (fs_with_template,
      Inl (HTTPException 500
             (msg_pdf_convert_failed @ ''Error: source file could not be loaded''))) \<and>
   convert_to_pdf silent_env fs_with_template sample_docx
   = (fs_with_template, Inl (HTTPException 500 msg_pdf_not_generated))"
proof -
  let ?failed = "\<lparr>returncode = 1, stdout = [],
                  stderr = ''Error: source file could not be loaded''\<rparr>"
  let ?silent = "\<lparr>returncode = 0, stdout = ''convert started'',
                  stderr = ''warning: no filter''\<rparr>"
  have pdf: "sample_pdf = OUTPUT_DIR @ [with_suffix (name_of sample_docx) ''.pdf'']"
    using pdf_name_output [of "''20240517120000''"]
    by (simp add: sample_docx_def sample_pdf_def)
  have absent: "fs_with_template sample_pdf = None"
    by (simp add: sample_defs dir_defs)
  have unchanged: "fs_with_template
                   = (case None of None \<Rightarrow> fs_with_template
                      | Some c \<Rightarrow> fs_with_template(sample_pdf \<mapsto> c))"
    by simp
  have run_failed: "subprocess_run failing_env
      [''soffice'', ''--headless'', ''--convert-to'', ''pdf'',
       str_path (base_dir failing_env) sample_docx, ''--outdir'',
       str_path (base_dir failing_env) OUTPUT_DIR] fs_with_template = Some (?failed, None)"
    by (simp add: failing_env_def soffice_fail_def)
  have run_silent: "subprocess_run silent_env
      [''soffice'', ''--headless'', ''--convert-to'', ''pdf'',
       str_path (base_dir silent_env) sample_docx, ''--outdir'',
       str_path (base_dir silent_env) OUTPUT_DIR] fs_with_template = Some (?silent, None)"
    by (simp add: silent_env_def soffice_silent_def)
  from convert_to_pdf_failures [OF run_failed pdf unchanged]
  have "convert_to_pdf failing_env fs_with_template sample_docx
        = (fs_with_template,
           Inl (HTTPException 500
                  (msg_pdf_convert_failed @ ''Error: source file could not be loaded'')))"
    by simp
  moreover
  from convert_to_pdf_failures [OF run_silent pdf unchanged] absent
  have "convert_to_pdf silent_env fs_with_template sample_docx
        = (fs_with_template, Inl (HTTPException 500 msg_pdf_not_generated))"
    by simp
  ultimately show ?thesis by simp
qed

text \<open>The claim as stated fails: a converter that exits with status 0, prints to both
  streams and writes no file makes the request fail with the fixed detail, which
  contains neither its standard error nor its standard output.\<close>

theorem convert_to_pdf_failures_counterexample:
  "subprocess_run silent_env
     [''soffice'', ''--headless'', ''--convert-to'', ''pdf'',
      str_path (base_dir silent_env) sample_docx, ''--outdir'',
      str_path (base_dir silent_env) OUTPUT_DIR] fs_with_template
   = Some (\<lparr>returncode = 0, stdout = ''convert started'', stderr = ''warning: no filter''\<rparr>,
           None) \<and>
   fs_with_template sample_pdf = None \<and>
   convert_to_pdf silent_env fs_with_template sample_docx
   = (fs_with_template, Inl (HTTPException 500 msg_pdf_not_generated)) \<and>
   \<not> contains msg_pdf_not_generated ''warning: no filter'' \<and>
   \<not> contains msg_pdf_not_generated ''convert started''"
  using pdf_name_output [of "''20240517120000''"]
  by (simp add: convert_to_pdf_def Let_def name_of_def sample_defs dir_defs msg_defs)

subsection \<open>Template upload\<close>

text \<open>
  Claim C4. For every upload-template request: if the name of the uploaded file,
  compared without regard to the case of its letters, does not end with \<open>.docx\<close>,
  the request is rejected with an \<open>HTTPException\<close> with status 400 and every file,
  the stored template included, is as before; otherwise the file's bytes are stored
  at the fixed template path, no other file changes, and the response is a JSON
  object with exactly the fields \<open>message\<close> and \<open>path\<close>, where \<open>path\<close> is the string
  of the stored template path.
\<close>

theorem upload_template_contract:
  "(\<not> suffix ''.docx'' (lower (filename file)) \<longrightarrow>
      (\<exists>detail. upload_template base fs file = (fs, Inl (HTTPException 400 detail)))) \<and>
   (suffix ''.docx'' (lower (filename file)) \<longrightarrow>
      (\<exists>fs' message.
         upload_template base fs file
         = (fs', Inr (JSONResponse
                        [(''message'', message),
                         (''path'', str_path base (UPLOAD_DIR @ [TEMPLATE_NAME]))])) \<and>
         fs' (UPLOAD_DIR @ [TEMPLATE_NAME]) = Some (Bytes (file_bytes file)) \<and>
         (\<forall>p. p \<noteq> UPLOAD_DIR @ [TEMPLATE_NAME] \<longrightarrow> fs' p = fs p)))"
  by (simp add: upload_template_def Let_def)

theorem upload_template_contract_witness:
  "upload_template ''/srv/forum8'' fs_with_template
     \<lparr>filename = ''notes.txt'', file_bytes = ''hello''\<rparr>
   = (fs_with_template, Inl (HTTPException 400 msg_docx_only)) \<and>
   upload_template ''/srv/forum8'' fs_with_template
     \<lparr>filename = ''Letter.DOCX'', file_bytes = ''Dear {{name}}''\<rparr>
   = (fs_with_template(UPLOAD_DIR @ [TEMPLATE_NAME] \<mapsto> Bytes ''Dear {{name}}''),
      Inr (JSONResponse [(''message'', msg_template_updated),
                         (''path'', ''/srv/forum8/data/uploads/template.docx'')]))"
proof -
  let ?txt = "\<lparr>filename = ''notes.txt'', file_bytes = ''hello''\<rparr>"
  let ?docx = "\<lparr>filename = ''Letter.DOCX'', file_bytes = ''Dear {{name}}''\<rparr>"
  have no: "\<not> suffix ''.docx'' (lower (filename ?txt))"
    by (simp add: lower_def lower_char_def suffix_to_prefix)
  have yes: "suffix ''.docx'' (lower (filename ?docx))"
    by (simp add: lower_def lower_char_def suffix_to_prefix)
  from no upload_template_contract [of ?txt "''/srv/forum8''" fs_with_template]
  have "upload_template ''/srv/forum8'' fs_with_template ?txt
        = (fs_with_template, Inl (HTTPException 400 msg_docx_only))"
    by (simp add: upload_template_def)
  moreover
  from yes upload_template_contract [of ?docx "''/srv/forum8''" fs_with_template]
  have "upload_template ''/srv/forum8'' fs_with_template ?docx
        = (fs_with_template(UPLOAD_DIR @ [TEMPLATE_NAME] \<mapsto> Bytes ''Dear {{name}}''),
           Inr (JSONResponse [(''message'', msg_template_updated),
                              (''path'', ''/srv/forum8/data/uploads/template.docx'')]))"
    by (simp add: upload_template_def str_path_def dir_defs)
  ultimately show ?thesis by simp
qed

subsection \<open>Timestamps\<close>

lemma digit_eq_iff: "digit a = digit b \<longleftrightarrow> a mod 10 = b mod 10"
  unfolding digit_def by (rule nth_eq_iff_index_eq) simp_all

lemma div_mod_10_eq:
  fixes x y :: nat
  assumes "x div 10 = y div 10" and "x mod 10 = y mod 10"
  shows "x = y"
  using assms by (metis div_mult_mod_eq)

lemma pad2_eq_iff:
  assumes "a < 100" and "b < 100"
  shows "pad2 a = pad2 b \<longleftrightarrow> a = b"
proof
  assume "pad2 a = pad2 b"
  then have hi: "(a div 10) mod 10 = (b div 10) mod 10" and lo: "a mod 10 = b mod 10"
    by (simp_all add: pad2_def digit_eq_iff)
  from assms have "a div 10 < 10" and "b div 10 < 10" by simp_all
  with hi have "a div 10 = b div 10" by simp
  then show "a = b" using lo by (rule div_mod_10_eq)
qed simp

lemma pad4_eq_iff:
  assumes "a < 10000" and "b < 10000"
  shows "pad4 a = pad4 b \<longleftrightarrow> a = b"
proof
  assume "pad4 a = pad4 b"
  then have d3: "(a div 1000) mod 10 = (b div 1000) mod 10"
    and d2: "(a div 100) mod 10 = (b div 100) mod 10"
    and d1: "(a div 10) mod 10 = (b div 10) mod 10" and d0: "a mod 10 = b mod 10"
    by (simp_all add: pad4_def digit_eq_iff)
  from assms have "a div 1000 < 10" and "b div 1000 < 10" by simp_all
  with d3 have "a div 1000 = b div 1000" by simp
  moreover have "a div 1000 = a div 100 div 10" and "b div 1000 = b div 100 div 10"
    by (simp_all add: div_mult2_eq [symmetric])
  ultimately have "a div 100 div 10 = b div 100 div 10" by simp
  then have "a div 100 = b div 100" using d2 by (rule div_mod_10_eq)
  moreover have "a div 100 = a div 10 div 10" and "b div 100 = b div 10 div 10"
    by (simp_all add: div_mult2_eq [symmetric])
  ultimately have "a div 10 div 10 = b div 10 div 10" by simp
  then have "a div 10 = b div 10" using d1 by (rule div_mod_10_eq)
  then show "a = b" using d0 by (rule div_mod_10_eq)
qed simp

lemma length_pad2 [simp]: "length (pad2 n) = 2"
  by (simp add: pad2_def)

lemma length_pad4 [simp]: "length (pad4 n) = 4"
  by (simp add: pad4_def)

lemma strftime_eq_iff:
  assumes "valid_datetime d" and "valid_datetime d'"
  shows "strftime d = strftime d' \<longleftrightarrow>
         year d = year d' \<and> month d = month d' \<and> day d = day d' \<and> hour d = hour d' \<and>
         minute d = minute d' \<and> second d = second d'"
proof -
  have "strftime d = strftime d' \<longleftrightarrow>
        pad4 (year d) = pad4 (year d') \<and> pad2 (month d) = pad2 (month d') \<and>
        pad2 (day d) = pad2 (day d') \<and> pad2 (hour d) = pad2 (hour d') \<and>
        pad2 (minute d) = pad2 (minute d') \<and> pad2 (second d) = pad2 (second d')"
    by (simp add: strftime_def)
  also have "\<dots> \<longleftrightarrow>
        year d = year d' \<and> month d = month d' \<and> day d = day d' \<and> hour d = hour d' \<and>
        minute d = minute d' \<and> second d = second d'"
    using assms by (simp add: valid_datetime_def pad2_eq_iff pad4_eq_iff)
  finally show ?thesis .
qed

lemma render_docx_frame:
  assumes "render_docx env fs ctx = (fs1, Inr p)" and "q \<noteq> p"
  shows "fs1 q = fs q"
proof -
  from render_docx_success [OF assms(1)] obtain rendered where
    "fs1 = fs(p \<mapsto> Bytes rendered)"
    by blast
  with assms(2) show ?thesis by simp
qed

text \<open>
  Claim C8, as amended. Every successful render writes its document to the output
  directory under the name \<open>output_<timestamp>.docx\<close>, where the timestamp is the
  clock reading formatted to the second, and changes no other file. Of two successive
  successful renders, the second produces the name of the first exactly when their
  clock readings agree from the year down to the second; when they do not, the
  artifact of the first is still stored, unchanged, after the second.
\<close>

theorem render_artifact_name:
  assumes "render_docx env fs ctx = (fs1, Inr p)"
    and "render_docx env' fs1 ctx' = (fs2, Inr p')"
    and "valid_datetime (datetime_now env)" and "valid_datetime (datetime_now env')"
  shows "p = OUTPUT_DIR @ [''output_'' @ strftime (datetime_now env) @ ''.docx''] \<and>
         p' = OUTPUT_DIR @ [''output_'' @ strftime (datetime_now env') @ ''.docx''] \<and>
         (\<exists>rendered. fs1 p = Some (Bytes rendered) \<and> fs1 = fs(p \<mapsto> Bytes rendered)) \<and>
         (\<exists>rendered'. fs2 p' = Some (Bytes rendered') \<and> fs2 = fs1(p' \<mapsto> Bytes rendered')) \<and>
         (p = p' \<longleftrightarrow>
            year (datetime_now env) = year (datetime_now env') \<and>
            month (datetime_now env) = month (datetime_now env') \<and>
            day (datetime_now env) = day (datetime_now env') \<and>
            hour (datetime_now env) = hour (datetime_now env') \<and>
            minute (datetime_now env) = minute (datetime_now env') \<and>
            second (datetime_now env) = second (datetime_now env')) \<and>
         (p \<noteq> p' \<longrightarrow> fs2 p = fs1 p)"
proof -
  from render_docx_success [OF assms(1)] obtain rendered where
    p: "p = OUTPUT_DIR @ [''output_'' @ strftime (datetime_now env) @ ''.docx'']"
    and saved: "fs1 = fs(p \<mapsto> Bytes rendered)"
    by blast
  from render_docx_success [OF assms(2)] obtain rendered' where
    p': "p' = OUTPUT_DIR @ [''output_'' @ strftime (datetime_now env') @ ''.docx'']"
    and saved': "fs2 = fs1(p' \<mapsto> Bytes rendered')"
    by blast
  from p p' have "p = p' \<longleftrightarrow> strftime (datetime_now env) = strftime (datetime_now env')"
    by simp
  with strftime_eq_iff [OF assms(3,4)]
  have names: "p = p' \<longleftrightarrow>
            year (datetime_now env) = year (datetime_now env') \<and>
            month (datetime_now env) = month (datetime_now env') \<and>
            day (datetime_now env) = day (datetime_now env') \<and>
            hour (datetime_now env) = hour (datetime_now env') \<and>
            minute (datetime_now env) = minute (datetime_now env') \<and>
            second (datetime_now env) = second (datetime_now env')"
    by simp
  have kept: "p \<noteq> p' \<longrightarrow> fs2 p = fs1 p"
    using render_docx_frame [OF assms(2)] by blast
  from saved have first: "\<exists>rendered. fs1 p = Some (Bytes rendered) \<and> fs1 = fs(p \<mapsto> Bytes rendered)"
    by simp
  from saved' have
    second: "\<exists>rendered'. fs2 p' = Some (Bytes rendered') \<and> fs2 = fs1(p' \<mapsto> Bytes rendered')"
    by simp
  from p p' first second names kept show ?thesis by blast
qed

theorem render_artifact_name_witness:
  "render_docx sample_env fs_with_template
     [(''dept_name'', JStr ''X''), (''requester'', JStr ''Y'')]
   = (fs_with_template(sample_docx \<mapsto> Bytes ''Dept: X, by Y''), Inr sample_docx) \<and>
   render_docx next_env (fs_with_template(sample_docx \<mapsto> Bytes ''Dept: X, by Y''))
     [(''dept_name'', JStr ''P''), (''requester'', JStr ''Q'')]
   = (fs_with_template(sample_docx \<mapsto> Bytes ''Dept: X, by Y'',
                       sample_docx_next \<mapsto> Bytes ''Dept: P, by Q''),
      Inr sample_docx_next) \<and>
   sample_docx = OUTPUT_DIR @ [''output_'' @ strftime noon @ ''.docx''] \<and>
   sample_docx_next = OUTPUT_DIR @ [''output_'' @ strftime noon_next @ ''.docx''] \<and>
   sample_docx \<noteq> sample_docx_next \<and>
   (fs_with_template(sample_docx \<mapsto> Bytes ''Dept: X, by Y'',
                     sample_docx_next \<mapsto> Bytes ''Dept: P, by Q'')) sample_docx
   = Some (Bytes ''Dept: X, by Y'')"
proof -
  let ?xy = "[(''dept_name'', JStr ''X''), (''requester'', JStr ''Y'')]"
  let ?pq = "[(''dept_name'', JStr ''P''), (''requester'', JStr ''Q'')]"
  let ?fs1 = "fs_with_template(sample_docx \<mapsto> Bytes ''Dept: X, by Y'')"
  let ?fs2 = "?fs1(sample_docx_next \<mapsto> Bytes ''Dept: P, by Q'')"
  have r: "render_docx sample_env fs_with_template ?xy = (?fs1, Inr sample_docx)"
    by (simp add: render_docx_def Let_def sample_defs dir_defs clock_defs)
  have r': "render_docx next_env ?fs1 ?pq = (?fs2, Inr sample_docx_next)"
    by (simp add: render_docx_def Let_def sample_defs next_env_def noon_next_def
        sample_docx_next_def dir_defs clock_defs)
  have v: "valid_datetime (datetime_now sample_env)"
    by (simp add: valid_datetime_def sample_env_def noon_def)
  have v': "valid_datetime (datetime_now next_env)"
    by (simp add: valid_datetime_def next_env_def sample_env_def noon_next_def)
  have seconds: "second (datetime_now sample_env) \<noteq> second (datetime_now next_env)"
    by (simp add: next_env_def sample_env_def noon_def noon_next_def)
  have now: "datetime_now sample_env = noon" "datetime_now next_env = noon_next"
    by (simp_all add: next_env_def sample_env_def)
  from render_artifact_name [OF r r' v v'] seconds
  have "sample_docx = OUTPUT_DIR @ [''output_'' @ strftime noon @ ''.docx'']"
    and "sample_docx_next = OUTPUT_DIR @ [''output_'' @ strftime noon_next @ ''.docx'']"
    and "sample_docx \<noteq> sample_docx_next"
    and "?fs2 sample_docx = ?fs1 sample_docx"
    unfolding now by blast+
  with r r' show ?thesis by simp
qed

text \<open>The claim as stated fails: two renders whose clock readings differ only in the
  microseconds produce the same name, and the second overwrites the artifact of the
  first.\<close>

theorem render_artifact_name_counterexample:
  "datetime_now sample_env \<noteq> datetime_now later_env \<and>
   render_docx sample_env fs_with_template
     [(''dept_name'', JStr ''X''), (''requester'', JStr ''Y'')]
   = (fs_with_template(sample_docx \<mapsto> Bytes ''Dept: X, by Y''), Inr sample_docx) \<and>
   render_docx later_env (fs_with_template(sample_docx \<mapsto> Bytes ''Dept: X, by Y''))
     [(''dept_name'', JStr ''P''), (''requester'', JStr ''Q'')]
   = (fs_with_template(sample_docx \<mapsto> Bytes ''Dept: P, by Q''), Inr sample_docx) \<and>
   (fs_with_template(sample_docx \<mapsto> Bytes ''Dept: X, by Y'')) sample_docx
   \<noteq> (fs_with_template(sample_docx \<mapsto> Bytes ''Dept: P, by Q'')) sample_docx"
  by (simp add: render_docx_def Let_def sample_defs later_env_def noon_later_def dir_defs
      clock_defs)

subsection \<open>Package and respond\<close>

lemma package_success:
  assumes "fs docx_path = Some d" and "fs pdf_path = Some p"
    and "docx_path = OUTPUT_DIR @ [''output_'' @ strftime t @ ''.docx'']"
    and "zip_path = TMP_DIR @ [''output_'' @ strftime t @ ''.zip'']"
  shows "package fs docx_path pdf_path
         = (fs(zip_path \<mapsto> Zip [(name_of docx_path, d), (name_of pdf_path, p)]),
            Inr (FileResponse zip_path ''application/zip'' (''output_'' @ strftime t @ ''.zip'')
                   (Some (Unlink zip_path))))"
  using assms stem_output [of "strftime t"] timestamp_of_stem [of t]
  by (simp add: package_def Let_def)

lemma generate_pdf_success:
  assumes "generate_context env request = Inr (ctx, True)"
    and "generate env fs request = (fs', Inr r)"
  shows "\<exists>fs1 docx_path fs2 pdf_path.
           render_docx env fs ctx = (fs1, Inr docx_path) \<and>
           convert_to_pdf env fs1 docx_path = (fs2, Inr pdf_path) \<and>
           package fs2 docx_path pdf_path = (fs', Inr r)"
  using assms by (auto simp: generate_def split: prod.splits sum.splits)

text \<open>
  Claim C6. For every generate request with conversion requested that succeeds: the
  response is a file response of type \<open>application/zip\<close> for the archive
  \<open>output_<timestamp>.zip\<close> in the scratch directory; the archive sent holds exactly
  two members, the rendered document and its PDF sibling as they are stored in the
  output directory, under the names \<open>output_<timestamp>.docx\<close> and
  \<open>output_<timestamp>.pdf\<close>; and once the response has completed, the archive no
  longer exists while both artifacts are still stored.
\<close>

theorem generate_zip_response:
  assumes "generate_context env request = Inr (ctx, True)"
    and "generate env fs request = (fs', Inr r)"
    and "ts = strftime (datetime_now env)"
    and "docx_path = OUTPUT_DIR @ [''output_'' @ ts @ ''.docx'']"
    and "pdf_path = OUTPUT_DIR @ [''output_'' @ ts @ ''.pdf'']"
    and "zip_path = TMP_DIR @ [''output_'' @ ts @ ''.zip'']"
  shows "\<exists>fs1 rendered pdf.
           render_docx env fs ctx = (fs1, Inr docx_path) \<and>
           fs1 docx_path = Some (Bytes rendered) \<and>
           r = FileResponse zip_path ''application/zip'' (''output_'' @ ts @ ''.zip'')
                 (Some (Unlink zip_path)) \<and>
           response_body fs' r
           = Some (Zip [(''output_'' @ ts @ ''.docx'', Bytes rendered),
                        (''output_'' @ ts @ ''.pdf'', pdf)]) \<and>
           fs' docx_path = Some (Bytes rendered) \<and> fs' pdf_path = Some pdf \<and>
           after_response fs' r zip_path = None \<and>
           after_response fs' r docx_path = Some (Bytes rendered) \<and>
           after_response fs' r pdf_path = Some pdf"
proof -
  from generate_pdf_success [OF assms(1,2)] obtain fs1 dp fs2 pp where
    r1: "render_docx env fs ctx = (fs1, Inr dp)"
    and c: "convert_to_pdf env fs1 dp = (fs2, Inr pp)"
    and pk: "package fs2 dp pp = (fs', Inr r)"
    by blast
  from render_docx_success [OF r1] assms(3,4) obtain rendered where
    dp: "dp = docx_path" and saved: "fs1 = fs(docx_path \<mapsto> Bytes rendered)"
    by auto
  from convert_to_pdf_success [OF c] dp assms(4,5) pdf_name_output [of ts] obtain pdf where
    pp: "pp = pdf_path" and pdf: "fs2 pdf_path = Some pdf"
    by auto
  have differ: "docx_path \<noteq> pdf_path" "zip_path \<noteq> docx_path" "zip_path \<noteq> pdf_path"
    using assms(4,5,6) by (simp_all add: dir_defs)
  from differ(1) assms(4,5) pdf_name_output [of ts]
  have "docx_path \<noteq> OUTPUT_DIR @ [with_suffix (name_of docx_path) ''.pdf'']"
    by simp
  with c dp have "fs2 docx_path = fs1 docx_path"
    by (simp add: convert_to_pdf_other_files)
  with saved have docx: "fs2 docx_path = Some (Bytes rendered)" by simp
  from package_success [OF docx pdf] assms(3,4,6)
  have "package fs2 docx_path pdf_path
        = (fs2(zip_path \<mapsto> Zip [(name_of docx_path, Bytes rendered), (name_of pdf_path, pdf)]),
           Inr (FileResponse zip_path ''application/zip'' (''output_'' @ ts @ ''.zip'')
                  (Some (Unlink zip_path))))"
    by simp
  with pk dp pp have
    fs': "fs' = fs2(zip_path \<mapsto> Zip [(name_of docx_path, Bytes rendered),
                                     (name_of pdf_path, pdf)])"
    and r: "r = FileResponse zip_path ''application/zip'' (''output_'' @ ts @ ''.zip'')
                  (Some (Unlink zip_path))"
    by simp_all
  have names: "name_of docx_path = ''output_'' @ ts @ ''.docx''"
    "name_of pdf_path = ''output_'' @ ts @ ''.pdf''"
    using assms(4,5) by simp_all
  have body: "response_body fs' r
              = Some (Zip [(''output_'' @ ts @ ''.docx'', Bytes rendered),
                           (''output_'' @ ts @ ''.pdf'', pdf)])"
    unfolding fs' r names by (simp add: response_body_def)
  have stored: "fs' docx_path = Some (Bytes rendered)" "fs' pdf_path = Some pdf"
    unfolding fs' using differ docx pdf by simp_all
  have after: "after_response fs' r zip_path = None"
    "after_response fs' r docx_path = Some (Bytes rendered)"
    "after_response fs' r pdf_path = Some pdf"
    unfolding r using differ stored by (simp_all add: after_response_def)
  from r1 dp saved have "render_docx env fs ctx = (fs1, Inr docx_path)"
    and "fs1 docx_path = Some (Bytes rendered)"
    by simp_all
  with r body stored after show ?thesis by blast
qed

theorem generate_zip_response_witness:
  \<open>generate sample_env fs_with_template
     (json_request ''{"data": {"dept_name": "X", "requester": "Y"}, "generate_pdf": true}'')
   = (fs_with_template
        (sample_docx \<mapsto> Bytes ''Dept: X, by Y'', sample_pdf \<mapsto> Bytes ''%PDF-1.4'',
         sample_zip \<mapsto> Zip [(''output_20240517120000.docx'', Bytes ''Dept: X, by Y''),
                            (''output_20240517120000.pdf'', Bytes ''%PDF-1.4'')]),
      Inr (FileResponse sample_zip ''application/zip'' ''output_20240517120000.zip''
             (Some (Unlink sample_zip)))) \<and>
   after_response
     (fs_with_template
        (sample_docx \<mapsto> Bytes ''Dept: X, by Y'', sample_pdf \<mapsto> Bytes ''%PDF-1.4'',
         sample_zip \<mapsto> Zip [(''output_20240517120000.docx'', Bytes ''Dept: X, by Y''),
                            (''output_20240517120000.pdf'', Bytes ''%PDF-1.4'')]))
     (FileResponse sample_zip ''application/zip'' ''output_20240517120000.zip''
        (Some (Unlink sample_zip))) sample_zip = None\<close>
proof -
  let ?req = \<open>json_request
    ''{"data": {"dept_name": "X", "requester": "Y"}, "generate_pdf": true}''\<close>
  let ?xy = "[(''dept_name'', JStr ''X''), (''requester'', JStr ''Y'')]"
  let ?fs1 = "fs_with_template(sample_docx \<mapsto> Bytes ''Dept: X, by Y'')"
  let ?fs2 = "?fs1(sample_pdf \<mapsto> Bytes ''%PDF-1.4'')"
  let ?fs3 = "?fs2(sample_zip \<mapsto> Zip [(''output_20240517120000.docx'', Bytes ''Dept: X, by Y''),
                                       (''output_20240517120000.pdf'', Bytes ''%PDF-1.4'')])"
  let ?r = "FileResponse sample_zip ''application/zip'' ''output_20240517120000.zip''
              (Some (Unlink sample_zip))"
  have ts: "''20240517120000'' = strftime (datetime_now sample_env)"
    by (simp add: sample_env_def noon_def clock_defs)
  have loaded: "generate_context sample_env ?req = Inr (?xy, True)"
    by (simp add: generate_context_def load_context_from_request_def sample_defs)
  have r1: "render_docx sample_env fs_with_template ?xy = (?fs1, Inr sample_docx)"
    by (simp add: render_docx_def Let_def sample_defs dir_defs clock_defs)
  have c: "convert_to_pdf sample_env ?fs1 sample_docx = (?fs2, Inr sample_pdf)"
    using pdf_name_output [of "''20240517120000''"]
    by (simp add: convert_to_pdf_def Let_def sample_env_def soffice_ok_def sample_docx_def
        sample_pdf_def)
  have "stem ''output_20240517120000.docx'' = ''output_20240517120000''"
    using stem_output [of "''20240517120000''"] by simp
  moreover have "replace ''output_20240517120000'' ''output_'' [] = ''20240517120000''"
    by simp
  ultimately have pk: "package ?fs2 sample_docx sample_pdf = (?fs3, Inr ?r)"
    by (simp add: package_def Let_def sample_docx_def sample_pdf_def sample_zip_def dir_defs
        name_of_def)
  from loaded r1 c pk have g: "generate sample_env fs_with_template ?req = (?fs3, Inr ?r)"
    by (simp add: generate_def)
  have dp: "sample_docx = OUTPUT_DIR @ [''output_'' @ ''20240517120000'' @ ''.docx'']"
    by (simp add: sample_docx_def)
  have pp: "sample_pdf = OUTPUT_DIR @ [''output_'' @ ''20240517120000'' @ ''.pdf'']"
    by (simp add: sample_pdf_def)
  have zp: "sample_zip = TMP_DIR @ [''output_'' @ ''20240517120000'' @ ''.zip'']"
    by (simp add: sample_zip_def)
  from generate_zip_response [OF loaded g ts dp pp zp]
  have "after_response ?fs3 ?r sample_zip = None" by blast
  with g show ?thesis by simp
qed

end
